theory Spec2Isabelle
  imports Main "HOL-Library.AList" "HOL-Library.Sublist"
begin

section \<open>Values exchanged with the language model and the data provider\<close>

text \<open>
  The program (\<^verbatim>\<open>src/app.py\<close>) moves JSON values around: the decision decoded from the
  classification reply, the keyword arguments of a provider call, the provider's answer.
  A Python \<^verbatim>\<open>dict\<close> keeps its keys in insertion order and assigning to a key that is
  present keeps its position, which is what \<open>AList.update\<close> does on an association list.
  Text is a list of 8-bit characters. A number with a fraction or an exponent is carried as
  its lexeme: the program never computes with such a number, it only tests it for truth.
\<close>

datatype json =
    JNull
  | JBool bool
  | JInt int
  | JFloat string
  | JStr string
  | JArr "json list"
  | JObj "(string \<times> json) list"

type_synonym dict = "(string \<times> json) list"

definition dict_has :: "('k \<times> 'v) list \<Rightarrow> 'k \<Rightarrow> bool" where
  \<comment> \<open>\<^verbatim>\<open>k in d\<close>\<close>
  "dict_has d k = (k \<in> set (map fst d))"

definition dict_get :: "('k \<times> 'v) list \<Rightarrow> 'k \<Rightarrow> 'v \<Rightarrow> 'v" where
  \<comment> \<open>\<^verbatim>\<open>d.get(k, default)\<close>\<close>
  "dict_get d k dflt = (case map_of d k of None \<Rightarrow> dflt | Some v \<Rightarrow> v)"

definition dict_set :: "('k \<times> 'v) list \<Rightarrow> 'k \<Rightarrow> 'v \<Rightarrow> ('k \<times> 'v) list" where
  \<comment> \<open>\<^verbatim>\<open>d[k] = v\<close>\<close>
  "dict_set d k v = AList.update k v d"

definition error_obj :: "string \<Rightarrow> json" where
  \<comment> \<open>\<^verbatim>\<open>{"error": msg}\<close>\<close>
  "error_obj msg = JObj [(''error'', JStr msg)]"

section \<open>The operation registry\<close>

text \<open>
  One entry of \<^verbatim>\<open>API_ENDPOINTS\<close>. The code reads every field but \<^verbatim>\<open>endpoint\<close> with
  \<^verbatim>\<open>api_info.get(field, default)\<close>, and two of the fields are present in one entry only,
  so a field that an entry may lack is an option.
\<close>

record api_info =
  endpoint :: string
  required_params :: "string list option"
  optional_params :: "string list option"
  default_values :: "dict option"
  param_mapping :: "(string \<times> string) list option"
  description :: string

definition get_or :: "'a \<Rightarrow> 'a option \<Rightarrow> 'a" where
  \<comment> \<open>the value of \<^verbatim>\<open>api_info.get(field, default)\<close>\<close>
  "get_or dflt field = (case field of None \<Rightarrow> dflt | Some v \<Rightarrow> v)"

definition INDIAN_API_BASE_URL :: string where
  "INDIAN_API_BASE_URL = ''https://stock.indianapi.in''"

definition API_ENDPOINTS :: "(string \<times> api_info) list" where
  "API_ENDPOINTS =
    [(''get_stock_details'',
        \<lparr>endpoint = ''/stock'', required_params = Some [''stock_name''],
         optional_params = None, default_values = None,
         param_mapping = Some [(''stock_name'', ''name'')],
         description = ''Get details for a specific stock''\<rparr>),
     (''get_trending_stocks'',
        \<lparr>endpoint = ''/trending'', required_params = Some [],
         optional_params = None, default_values = None, param_mapping = Some [],
         description = ''Get trending stocks in the market''\<rparr>),
     (''get_market_news'',
        \<lparr>endpoint = ''/news'', required_params = Some [],
         optional_params = None, default_values = None, param_mapping = Some [],
         description = ''Get latest stock market news''\<rparr>),
     (''get_mutual_funds'',
        \<lparr>endpoint = ''/mutual_funds'', required_params = Some [],
         optional_params = None, default_values = None, param_mapping = Some [],
         description = ''Get mutual funds data''\<rparr>),
     (''get_ipo_data'',
        \<lparr>endpoint = ''/ipo'', required_params = Some [],
         optional_params = None, default_values = None, param_mapping = Some [],
         description = ''Get IPO data''\<rparr>),
     (''get_bse_most_active'',
        \<lparr>endpoint = ''/BSE_most_active'', required_params = Some [],
         optional_params = None, default_values = None, param_mapping = Some [],
         description = ''Get BSE most active stocks''\<rparr>),
     (''get_nse_most_active'',
        \<lparr>endpoint = ''/NSE_most_active'', required_params = Some [],
         optional_params = None, default_values = None, param_mapping = Some [],
         description = ''Get NSE most active stocks''\<rparr>),
     (''get_historical_data'',
        \<lparr>endpoint = ''/historical_data'', required_params = Some [''stock_name''],
         optional_params = Some [''period''],
         default_values = Some [(''period'', JStr ''1m''), (''filter'', JStr ''default'')],
         param_mapping = Some [],
         description = ''Get historical data for a stock''\<rparr>)]"

section \<open>The data provider gateway\<close>

text \<open>
  \<^verbatim>\<open>call_indian_api\<close> sends one GET request and returns the decoded body; whatever
  \<^verbatim>\<open>requests.get\<close> or \<^verbatim>\<open>response.json()\<close> raises is caught and returned as
  \<^verbatim>\<open>{"error": str(e)}\<close>. The network is a parameter: \<open>http_get url params\<close> is either the
  text of the exception or the decoded body. Each request that is sent is appended to a log,
  so that "no network call" is a statement about the log.
\<close>

type_synonym http = "string \<Rightarrow> dict \<Rightarrow> string + json"

type_synonym http_log = "(string \<times> dict) list"

definition call_indian_api :: "http \<Rightarrow> string \<Rightarrow> dict \<Rightarrow> http_log \<Rightarrow> json \<times> http_log" where
  "call_indian_api http_get endpoint' params log =
     (let url = INDIAN_API_BASE_URL @ endpoint' in
      (case http_get url params of
         Inl msg \<Rightarrow> error_obj msg
       | Inr body \<Rightarrow> body,
       log @ [(url, params)]))"

section \<open>Resolving an operation name and its parameters\<close>

text \<open>
  \<^verbatim>\<open>call_api_by_name\<close> validates and transforms before it calls the gateway. The part
  before the gateway call (lines 113 to 133) is \<open>resolve\<close>: it either stops with the error
  object that \<^verbatim>\<open>call_api_by_name\<close> returns early, or yields the endpoint and the final
  parameters that are handed to \<^verbatim>\<open>call_indian_api\<close>.
\<close>

datatype resolution = Failure json | Request string dict

fun first_missing :: "string list \<Rightarrow> dict \<Rightarrow> string option" where
  \<comment> \<open>the loop over \<^verbatim>\<open>required_params\<close>: the first one that is not in \<^verbatim>\<open>kwargs\<close>\<close>
  "first_missing [] kwargs = None"
| "first_missing (param # rest) kwargs =
     (if \<not> dict_has kwargs param then Some param else first_missing rest kwargs)"

definition mapped_name :: "api_info \<Rightarrow> string \<Rightarrow> string" where
  \<comment> \<open>\<^verbatim>\<open>api_info.get("param_mapping", {}).get(param, param)\<close>\<close>
  "mapped_name api param = dict_get (get_or [] (param_mapping api)) param param"

fun apply_mapping :: "api_info \<Rightarrow> dict \<Rightarrow> dict \<Rightarrow> dict" where
  \<comment> \<open>the loop over \<^verbatim>\<open>kwargs.items()\<close>, \<open>mapped_params\<close> being the dictionary built so far\<close>
  "apply_mapping api mapped_params [] = mapped_params"
| "apply_mapping api mapped_params ((param, val) # rest) =
     apply_mapping api (dict_set mapped_params (mapped_name api param) val) rest"

fun apply_defaults :: "dict \<Rightarrow> dict \<Rightarrow> dict" where
  \<comment> \<open>the loop over \<^verbatim>\<open>default_values.items()\<close>\<close>
  "apply_defaults mapped_params [] = mapped_params"
| "apply_defaults mapped_params ((param, val) # rest) =
     apply_defaults
       (if \<not> dict_has mapped_params param then dict_set mapped_params param val
        else mapped_params) rest"

definition resolve :: "string \<Rightarrow> dict \<Rightarrow> resolution" where
  "resolve api_name kwargs =
     (if \<not> dict_has API_ENDPOINTS api_name then
        Failure (error_obj (''Unknown API: '' @ api_name))
      else
        let api = the (map_of API_ENDPOINTS api_name) in
        (case first_missing (get_or [] (required_params api)) kwargs of
           Some param \<Rightarrow> Failure (error_obj (''Missing required parameter: '' @ param))
         | None \<Rightarrow>
             Request (endpoint api)
               (apply_defaults (apply_mapping api [] kwargs)
                  (get_or [] (default_values api)))))"

definition call_api_by_name :: "http \<Rightarrow> string \<Rightarrow> dict \<Rightarrow> http_log \<Rightarrow> json \<times> http_log" where
  "call_api_by_name http_get api_name kwargs log =
     (case resolve api_name kwargs of
        Failure err \<Rightarrow> (err, log)
      | Request endpoint' mapped_params \<Rightarrow> call_indian_api http_get endpoint' mapped_params log)"

section \<open>Python text operations used by the orchestrator\<close>

datatype py_exn =
    TypeError | AttributeError | IndexError | ValueError | JSONDecodeError | ServiceError

definition and_then :: "'e + 'a \<Rightarrow> ('a \<Rightarrow> 'e + 'b) \<Rightarrow> 'e + 'b" where
  \<comment> \<open>sequencing of statements, the first exception ending the block\<close>
  "and_then r f = (case r of Inl e \<Rightarrow> Inl e | Inr v \<Rightarrow> f v)"

text \<open>
  \<^verbatim>\<open>s.split(sep)\<close> cuts \<open>s\<close> at the occurrences of \<open>sep\<close>, found from left to right
  without overlap; \<open>cur\<close> is the piece being read. An empty separator raises.
\<close>

function split_pieces :: "string \<Rightarrow> string \<Rightarrow> string \<Rightarrow> string list" where
  "split_pieces sep cur [] = [cur]"
| "split_pieces sep cur (c # cs) =
     (if sep \<noteq> [] \<and> prefix sep (c # cs)
      then cur # split_pieces sep [] (drop (length sep) (c # cs))
      else split_pieces sep (cur @ [c]) cs)"
  by pat_completeness auto
termination
  by (relation "measure (\<lambda>(sep, cur, s). length s)") auto

definition py_split :: "string \<Rightarrow> string \<Rightarrow> py_exn + string list" where
  "py_split s sep = (if sep = [] then Inl ValueError else Inr (split_pieces sep [] s))"

definition py_getitem :: "'a list \<Rightarrow> nat \<Rightarrow> py_exn + 'a" where
  \<comment> \<open>\<^verbatim>\<open>xs[i]\<close> for a literal index \<open>i \<ge> 0\<close>\<close>
  "py_getitem xs i = (if i < length xs then Inr (xs ! i) else Inl IndexError)"

definition py_isspace :: "char \<Rightarrow> bool" where
  \<comment> \<open>the characters below 256 that \<^verbatim>\<open>str.strip()\<close> removes\<close>
  "py_isspace c = (of_char c \<in> {9, 10, 11, 12, 13, 28, 29, 30, 31, 32, 133, 160 :: nat})"

definition py_strip :: "string \<Rightarrow> string" where
  "py_strip s = rev (dropWhile py_isspace (rev (dropWhile py_isspace s)))"

section \<open>The orchestrator\<close>

text \<open>
  Lines 213 to 219: the text handed to \<^verbatim>\<open>json.loads\<close>. \<^verbatim>\<open>response.text\<close> may be
  \<^verbatim>\<open>None\<close>, and then the test \<^verbatim>\<open>"```json" in decision_text\<close> raises.
\<close>

definition extract_json_str :: "string option \<Rightarrow> py_exn + string" where
  "extract_json_str decision_text =
     (case decision_text of
        None \<Rightarrow> Inl TypeError
      | Some t \<Rightarrow>
          if sublist ''```json'' t then
            and_then (py_split t ''```json'') (\<lambda>parts.
            and_then (py_getitem parts 1) (\<lambda>labelled.
            and_then (py_split labelled ''```'') (\<lambda>parts'.
            and_then (py_getitem parts' 0) (\<lambda>inner. Inr (py_strip inner)))))
          else if sublist ''```'' t then
            and_then (py_split t ''```'') (\<lambda>parts.
            and_then (py_getitem parts 1) (\<lambda>inner. Inr (py_strip inner)))
          else Inr (py_strip t))"

text \<open>
  What the program does not contain is a parameter: the two calls of the language model,
  the HTTP request, and Python's \<^verbatim>\<open>json\<close> module.
  \<^item> \<open>classify query\<close>: the outcome of \<^verbatim>\<open>client.models.generate_content\<close> on the
    classification prompt built around \<open>query\<close>: an exception, or \<^verbatim>\<open>response.text\<close>
    (which may be \<^verbatim>\<open>None\<close>). The prompt is a fixed text around the query, so the reply is
    taken as a function of the query.
  \<^item> \<open>loads\<close>: \<^verbatim>\<open>json.loads\<close>, an exception or the decoded value.
  \<^item> \<open>dumps\<close>: \<^verbatim>\<open>json.dumps(value, indent=2)\<close>.
  \<^item> \<open>fetch\<close>: the network, see the gateway.
  \<^item> \<open>generate_stream system_message user_query\<close>: the chunks that
    \<^verbatim>\<open>generate_content_stream\<close> delivers and, when the call or the stream fails, the
    exception that ends it.
\<close>

datatype chunk =
    Text string      \<comment> \<open>\<^verbatim>\<open>chunk.text\<close> is a string\<close>
  | TextNone         \<comment> \<open>\<^verbatim>\<open>chunk.text\<close> is \<^verbatim>\<open>None\<close>\<close>
  | NoTextAttr       \<comment> \<open>\<^verbatim>\<open>hasattr(chunk, 'text')\<close> is false\<close>

record services =
  classify :: "string \<Rightarrow> py_exn + string option"
  loads :: "string \<Rightarrow> py_exn + json"
  dumps :: "json \<Rightarrow> string"
  fetch :: http
  generate_stream :: "string \<Rightarrow> string \<Rightarrow> chunk list \<times> py_exn option"

definition FALLBACK :: json where
  \<comment> \<open>\<^verbatim>\<open>{"needs_api": False}\<close>\<close>
  "FALLBACK = JObj [(''needs_api'', JBool False)]"

definition parse_response :: "(string \<Rightarrow> py_exn + json) \<Rightarrow> string option \<Rightarrow> json" where
  \<comment> \<open>lines 210 to 225: the \<^verbatim>\<open>try\<close> block and its handler\<close>
  "parse_response json_loads decision_text =
     (case and_then (extract_json_str decision_text) json_loads of
        Inl e \<Rightarrow> FALLBACK
      | Inr decision \<Rightarrow> decision)"

definition orchestrator :: "services \<Rightarrow> string \<Rightarrow> py_exn + json" where
  \<comment> \<open>the call of the model is outside the \<^verbatim>\<open>try\<close> block: its exception leaves the function\<close>
  "orchestrator sv query =
     (case classify sv query of
        Inl e \<Rightarrow> Inl e
      | Inr decision_text \<Rightarrow> Inr (parse_response (loads sv) decision_text))"

section \<open>The chat turn\<close>

datatype role = User | Model

record message =
  role :: role
  content :: string

definition SYSTEM_PROMPT :: string where
  "SYSTEM_PROMPT =
     ''You are Flaix, a helpful and knowledgeable financial assistant designed ''
     @ ''specifically for Indian users. Your purpose is to improve financial literacy and ''
     @ ''provide guidance on investments in the Indian market.\<newline>\<newline>''
     @ ''Key responsibilities:\<newline>''
     @ ''1. Explain financial concepts in simple, easy-to-understand language\<newline>''
     @ ''2. Provide information about different investment options available in India ''
     @ ''(stocks, mutual funds, bonds, PPF, FDs, etc.)\<newline>''
     @ ''3. Help users understand investment risks and returns\<newline>''
     @ ''4. Explain tax implications of different investments in the Indian context\<newline>''
     @ ''5. Guide users on how to start investing based on their goals and risk ''
     @ ''tolerance\<newline>''
     @ ''6. Answer questions about market trends and financial news in India\<newline>''"

definition GREETING :: string where
  "GREETING = ''Hello! I am Flaix, your financial assistant. You can ask me about ''
     @ ''investments, financial planning, or any other financial topic.''"

definition initial_messages :: "message list" where
  "initial_messages =
     [\<lparr>role = User, content = SYSTEM_PROMPT\<rparr>, \<lparr>role = Model, content = GREETING\<rparr>]"

definition APOLOGY :: string where
  "APOLOGY = ''I'' @ [CHR 0x27] @ ''m sorry, I encountered an error. Please try again later.''"

text \<open>
  The values that \<^verbatim>\<open>if\<close> takes for true. A \<open>JFloat\<close> carries the lexeme of a JSON
  number or one of the names \<^verbatim>\<open>NaN\<close>, \<^verbatim>\<open>Infinity\<close>, \<^verbatim>\<open>-Infinity\<close>. Python reads the
  lexeme as the nearest double, ties to even, so the float is zero exactly when the decimal
  value of the lexeme is at most 2 to the power -1075, half of the least positive double: with
  mantissa digits \<open>m\<close> and decimal exponent \<open>e10\<close>, when \<open>m * 10 ^ e10\<close> is zero or, for a
  negative \<open>e10\<close>, \<open>m * 2 ^ 1075 \<le> 10 ^ (- e10)\<close>.
\<close>

definition is_digit :: "char \<Rightarrow> bool" where
  "is_digit c = (48 \<le> (of_char c :: nat) \<and> (of_char c :: nat) \<le> 57)"

definition digit_val :: "char \<Rightarrow> nat" where
  "digit_val c = of_char c - 48"

definition nat_of_digits :: "string \<Rightarrow> nat" where
  "nat_of_digits ds = foldl (\<lambda>n c. 10 * n + digit_val c) 0 ds"

definition float_nonzero :: "string \<Rightarrow> bool" where
  "float_nonzero lexeme =
     (if lexeme = ''NaN'' \<or> lexeme = ''Infinity'' \<or> lexeme = ''-Infinity'' then True
      else
        let body = (if prefix ''-'' lexeme then drop 1 lexeme else lexeme);
            mantissa = takeWhile (\<lambda>c. c \<noteq> CHR ''e'' \<and> c \<noteq> CHR ''E'') body;
            int_digits = takeWhile is_digit mantissa;
            frac_digits = drop (length int_digits + 1) mantissa;
            exponent = drop (length mantissa + 1) body;
            exp_digits = (if prefix ''+'' exponent \<or> prefix ''-'' exponent
                          then drop 1 exponent else exponent);
            m = nat_of_digits (int_digits @ frac_digits);
            e10 = (if prefix ''-'' exponent then - int (nat_of_digits exp_digits)
                   else int (nat_of_digits exp_digits)) - int (length frac_digits)
        in m \<noteq> 0 \<and> (0 \<le> e10 \<or> 10 ^ nat (- e10) < m * 2 ^ 1075))"

fun py_truthy :: "json \<Rightarrow> bool" where
  "py_truthy JNull = False"
| "py_truthy (JBool b) = b"
| "py_truthy (JInt n) = (n \<noteq> 0)"
| "py_truthy (JFloat lexeme) = float_nonzero lexeme"
| "py_truthy (JStr s) = (s \<noteq> [])"
| "py_truthy (JArr xs) = (xs \<noteq> [])"
| "py_truthy (JObj kvs) = (kvs \<noteq> [])"

fun py_get :: "json \<Rightarrow> string \<Rightarrow> json \<Rightarrow> py_exn + json" where
  \<comment> \<open>\<^verbatim>\<open>decision.get(key, default)\<close>: only a dictionary has \<^verbatim>\<open>get\<close>\<close>
  "py_get (JObj kvs) key dflt = Inr (dict_get kvs key dflt)"
| "py_get other key dflt = Inl AttributeError"

fun registered :: "json \<Rightarrow> py_exn + string option" where
  \<comment> \<open>\<^verbatim>\<open>function_name in API_ENDPOINTS\<close>: a list or a dictionary cannot be hashed, a value
      that is no string equals no key\<close>
  "registered (JStr name) = Inr (if dict_has API_ENDPOINTS name then Some name else None)"
| "registered (JArr xs) = Inl TypeError"
| "registered (JObj kvs) = Inl TypeError"
| "registered other = Inr None"

fun bind_kwargs :: "json \<Rightarrow> py_exn + dict" where
  \<comment> \<open>\<^verbatim>\<open>call_api_by_name(function_name, **params)\<close>: \<^verbatim>\<open>params\<close> must be a mapping, and
      a key \<^verbatim>\<open>api_name\<close> would bind the first parameter twice\<close>
  "bind_kwargs (JObj kvs) = (if dict_has kvs ''api_name'' then Inl TypeError else Inr kvs)"
| "bind_kwargs other = Inl TypeError"

definition api_context_text :: "string \<Rightarrow> string" where
  \<comment> \<open>the f-string of line 289 around the serialized result\<close>
  "api_context_text serialized =
     ''\<newline>Here is the real-time market data from the Indian Stock Market API:\<newline>''
     @ serialized
     @ ''\<newline>\<newline>Please use this data to provide an informative response to the user''
     @ [CHR 0x27] @ ''s query.''"

definition fetch_api_context ::
  "services \<Rightarrow> json \<Rightarrow> http_log \<Rightarrow> (py_exn + string) \<times> http_log" where
  \<comment> \<open>lines 280 to 289: \<open>api_context\<close>, or the exception that a step raises\<close>
  "fetch_api_context sv decision log =
     (case py_get decision ''needs_api'' (JBool False) of
        Inl e \<Rightarrow> (Inl e, log)
      | Inr needs_api \<Rightarrow>
          if py_truthy needs_api then
            (case py_get decision ''function'' (JStr []) of
               Inl e \<Rightarrow> (Inl e, log)
             | Inr function_name \<Rightarrow>
                 (case py_get decision ''params'' (JObj []) of
                    Inl e \<Rightarrow> (Inl e, log)
                  | Inr params \<Rightarrow>
                      (case registered function_name of
                         Inl e \<Rightarrow> (Inl e, log)
                       | Inr None \<Rightarrow> (Inr [], log)
                       | Inr (Some name) \<Rightarrow>
                           (case bind_kwargs params of
                              Inl e \<Rightarrow> (Inl e, log)
                            | Inr kwargs \<Rightarrow>
                                (case call_api_by_name (fetch sv) name kwargs log of
                                   (api_result, log') \<Rightarrow>
                                     (Inr (api_context_text (dumps sv api_result)), log'))))))
          else (Inr [], log))"

definition user_query_for :: "string \<Rightarrow> string \<Rightarrow> string" where
  \<comment> \<open>lines 293 to 295\<close>
  "user_query_for prompt api_context =
     (if api_context \<noteq> [] then prompt @ ''\<newline>\<newline>[SYSTEM NOTE: '' @ api_context @ '']''
      else prompt)"

fun history_loop :: "message list \<Rightarrow> nat list \<Rightarrow> string \<Rightarrow> string" where
  \<comment> \<open>the loop of lines 302 to 306 over the indices \<open>is\<close>, all of them below the length of
      the history\<close>
  "history_loop msgs [] conversation_history = conversation_history"
| "history_loop msgs (i # is) conversation_history =
     history_loop msgs is
       (if role (msgs ! i) = User \<and> content (msgs ! i) \<noteq> SYSTEM_PROMPT then
          conversation_history @ ''User: '' @ content (msgs ! i) @ ''\<newline>''
        else if role (msgs ! i) = Model then
          conversation_history @ ''Assistant: '' @ content (msgs ! i) @ ''\<newline>''
        else conversation_history)"

definition conversation_history_of :: "message list \<Rightarrow> string" where
  \<comment> \<open>\<^verbatim>\<open>range(1, min(5, len(messages) - 1))\<close>, for a history of more than two messages\<close>
  "conversation_history_of msgs = history_loop msgs [1 ..< min 5 (length msgs - 1)] []"

definition system_message_for :: "message list \<Rightarrow> string" where
  \<comment> \<open>lines 298 to 308\<close>
  "system_message_for msgs =
     (if length msgs > 2 then
        SYSTEM_PROMPT @ ''\<newline>\<newline>Previous conversation:\<newline>'' @ conversation_history_of msgs
      else SYSTEM_PROMPT)"

fun consume :: "chunk list \<Rightarrow> string \<Rightarrow> py_exn + string" where
  \<comment> \<open>the loop of lines 349 to 352: adding \<^verbatim>\<open>None\<close> to a string raises\<close>
  "consume [] full_response = Inr full_response"
| "consume (Text t # rest) full_response = consume rest (full_response @ t)"
| "consume (TextNone # rest) full_response = Inl TypeError"
| "consume (NoTextAttr # rest) full_response = consume rest full_response"

text \<open>
  The state of a session: the history, and two logs that record what leaves the program,
  the requests sent to the data provider and the generation requests (system message and
  user query) sent to the model.
\<close>

record session =
  messages :: "message list"
  requests :: http_log
  generations :: "(string \<times> string) list"

definition respond :: "services \<Rightarrow> session \<Rightarrow> string \<Rightarrow> (py_exn + string) \<times> session" where
  \<comment> \<open>lines 276 to 355, the \<^verbatim>\<open>try\<close> block of the turn: the full response, or the exception
      that ends the block\<close>
  "respond sv st prompt =
     (case orchestrator sv prompt of
        Inl e \<Rightarrow> (Inl e, st)
      | Inr decision \<Rightarrow>
          (case fetch_api_context sv decision (requests st) of
             (Inl e, log') \<Rightarrow> (Inl e, st\<lparr>requests := log'\<rparr>)
           | (Inr api_context, log') \<Rightarrow>
               let user_query = user_query_for prompt api_context;
                   system_message = system_message_for (messages st)
               in (case generate_stream sv system_message user_query of
                     (chunks, failure) \<Rightarrow>
                       (case failure of
                          Some e \<Rightarrow> Inl e
                        | None \<Rightarrow> consume chunks [],
                        st\<lparr>requests := log',
                           generations := generations st @ [(system_message, user_query)]\<rparr>))))"

definition chat_turn :: "services \<Rightarrow> session \<Rightarrow> string \<Rightarrow> session" where
  \<comment> \<open>lines 262 to 363; an empty input is no turn\<close>
  "chat_turn sv st prompt =
     (if prompt = [] then st
      else
        let st1 = st\<lparr>messages := messages st @ [\<lparr>role = User, content = prompt\<rparr>]\<rparr> in
        (case respond sv st1 prompt of
           (outcome, st2) \<Rightarrow>
             let full_response = (case outcome of Inl e \<Rightarrow> APOLOGY | Inr text \<Rightarrow> text)
             in st2\<lparr>messages := messages st2 @ [\<lparr>role = Model, content = full_response\<rparr>]\<rparr>))"

section \<open>The three-tier extraction, as the specification words it\<close>

text \<open>
  The specification describes the payload by what the text contains. A fenced block opens
  at the first occurrence of its opening marker and its contents end before the next fence
  \<^verbatim>\<open>```\<close>, or at the end of the text when the block is not closed. \<open>break_at marker [] t\<close>
  cuts \<open>t\<close> at the first occurrence of \<open>marker\<close>.
\<close>

fun break_at :: "string \<Rightarrow> string \<Rightarrow> string \<Rightarrow> (string \<times> string) option" where
  "break_at marker before [] = None"
| "break_at marker before (c # cs) =
     (if marker \<noteq> [] \<and> prefix marker (c # cs)
      then Some (before, drop (length marker) (c # cs))
      else break_at marker (before @ [c]) cs)"

definition fenced_contents :: "string \<Rightarrow> string \<Rightarrow> string option" where
  "fenced_contents opening t =
     (case break_at opening [] t of
        None \<Rightarrow> None
      | Some (before, rest) \<Rightarrow>
          Some (case break_at ''```'' [] rest of
                  None \<Rightarrow> rest
                | Some (body, after) \<Rightarrow> body))"

definition payload_by_fallback :: "string \<Rightarrow> string" where
  "payload_by_fallback t =
     (case fenced_contents ''```json'' t of
        Some body \<Rightarrow> py_strip body
      | None \<Rightarrow>
          (case fenced_contents ''```'' t of
             Some body \<Rightarrow> py_strip body
           | None \<Rightarrow> py_strip t))"

definition overlapped_fence :: "string \<Rightarrow> bool" where
  \<comment> \<open>the fence that closes the first block labelled \<^verbatim>\<open>json\<close> is followed by one or two
      more backquotes and \<^verbatim>\<open>json\<close>, so that a second marker \<^verbatim>\<open>```json\<close> overlaps it\<close>
  "overlapped_fence t =
     (case break_at ''```json'' [] t of
        None \<Rightarrow> False
      | Some (before, rest) \<Rightarrow>
          (case break_at ''```'' [] rest of
             None \<Rightarrow> False
           | Some (body, after) \<Rightarrow> prefix ''`json'' after \<or> prefix ''``json'' after))"

section \<open>A reference decoder and encoder for JSON\<close>

text \<open>
  \<^verbatim>\<open>json.loads\<close> and \<^verbatim>\<open>json.dumps\<close> are library code and parameters of the model. To run
  the model on concrete replies, this section gives a decoder and an encoder that follow the
  library on 8-bit text: the grammar and the order of the checks are those of
  \<^verbatim>\<open>json.decoder\<close> and \<^verbatim>\<open>json.scanner\<close> (strict mode), the layout that of
  \<^verbatim>\<open>json.dumps(value, indent=2)\<close>. Three things are not the library's: a number with a
  fraction or an exponent stays a lexeme (decoded as \<open>JFloat\<close>, written back unchanged); an
  escape \<^verbatim>\<open>\uXXXX\<close> above \<^verbatim>\<open>00FF\<close> has no character in this model and is refused; the
  decoder runs on fuel, two units per character of the text, instead of the interpreter's
  recursion limit.
\<close>

definition json_ws :: "char \<Rightarrow> bool" where
  "json_ws c = (c = CHR '' '' \<or> c = CHR 0x09 \<or> c = CHR 0x0A \<or> c = CHR 0x0D)"

definition skip_ws :: "string \<Rightarrow> string" where
  "skip_ws s = dropWhile json_ws s"

definition hex_val :: "char \<Rightarrow> nat option" where
  "hex_val c =
     (if is_digit c then Some (digit_val c)
      else if 97 \<le> (of_char c :: nat) \<and> (of_char c :: nat) \<le> 102 then Some (of_char c - 87)
      else if 65 \<le> (of_char c :: nat) \<and> (of_char c :: nat) \<le> 70 then Some (of_char c - 55)
      else None)"

fun hex4 :: "string \<Rightarrow> nat option" where
  "hex4 [a, b, c, d] =
     (case (hex_val a, hex_val b, hex_val c, hex_val d) of
        (Some h3, Some h2, Some h1, Some h0) \<Rightarrow> Some (((h3 * 16 + h2) * 16 + h1) * 16 + h0)
      | _ \<Rightarrow> None)"
| "hex4 other = None"

definition unescape :: "char \<Rightarrow> char option" where
  "unescape e =
     (if e = CHR 0x22 \<or> e = CHR 0x5C \<or> e = CHR ''/'' then Some e
      else if e = CHR ''b'' then Some (CHR 0x08)
      else if e = CHR ''f'' then Some (CHR 0x0C)
      else if e = CHR ''n'' then Some (CHR 0x0A)
      else if e = CHR ''r'' then Some (CHR 0x0D)
      else if e = CHR ''t'' then Some (CHR 0x09)
      else None)"

fun scan_string :: "string \<Rightarrow> string \<Rightarrow> (string \<times> string) option" where
  \<comment> \<open>the text after an opening quote: the decoded string and what follows the closing quote\<close>
  "scan_string acc [] = None"
| "scan_string acc (c # cs) =
     (if c = CHR 0x22 then Some (acc, cs)
      else if c = CHR 0x5C then
        (case cs of
           [] \<Rightarrow> None
         | e # cs' \<Rightarrow>
             if e = CHR ''u'' then
               (case hex4 (take 4 cs') of
                  None \<Rightarrow> None
                | Some n \<Rightarrow>
                    if n < 256 then scan_string (acc @ [char_of n]) (drop 4 cs') else None)
             else
               (case unescape e of
                  None \<Rightarrow> None
                | Some ch \<Rightarrow> scan_string (acc @ [ch]) cs'))
      else if (of_char c :: nat) < 32 then None
      else scan_string (acc @ [c]) cs)"

definition scan_number :: "string \<Rightarrow> (json \<times> string) option" where
  \<comment> \<open>the pattern \<^verbatim>\<open>(-?(?:0|[1-9]\d*))(\.\d+)?([eE][-+]?\d+)?\<close> at the head of the text\<close>
  "scan_number s =
     (let sign = (if prefix ''-'' s then ''-'' else []);
          s1 = drop (length sign) s;
          int_part = (if prefix ''0'' s1 then ''0''
                      else takeWhile is_digit s1);
          s2 = drop (length int_part) s1;
          frac_digits = (case s2 of c # r \<Rightarrow> if c = CHR ''.'' then takeWhile is_digit r else []
                                  | [] \<Rightarrow> []);
          frac = (if frac_digits = [] then [] else CHR ''.'' # frac_digits);
          s3 = drop (length frac) s2;
          exp_sign = (case s3 of
                        e # c # r \<Rightarrow>
                          if (e = CHR ''e'' \<or> e = CHR ''E'') \<and> (c = CHR ''+'' \<or> c = CHR ''-'')
                          then [c] else []
                      | _ \<Rightarrow> []);
          exp_digits = (case s3 of
                          e # r \<Rightarrow>
                            if e = CHR ''e'' \<or> e = CHR ''E''
                            then takeWhile is_digit (drop (length exp_sign) r) else []
                        | [] \<Rightarrow> []);
          expo = (if exp_digits = [] then [] else take 1 s3 @ exp_sign @ exp_digits);
          s4 = drop (length expo) s3
      in if int_part = [] then None
         else if frac = [] \<and> expo = [] then
           Some (JInt (if sign = [] then int (nat_of_digits int_part)
                       else - int (nat_of_digits int_part)), s4)
         else Some (JFloat (sign @ int_part @ frac @ expo), s4))"

fun scan_once :: "nat \<Rightarrow> string \<Rightarrow> (json \<times> string) option"
  and scan_items :: "nat \<Rightarrow> json list \<Rightarrow> string \<Rightarrow> (json \<times> string) option"
  and scan_pairs :: "nat \<Rightarrow> dict \<Rightarrow> string \<Rightarrow> (json \<times> string) option" where
  "scan_once 0 s = None"
| "scan_once (Suc fuel) s =
     (case s of
        [] \<Rightarrow> None
      | c # cs \<Rightarrow>
          if c = CHR 0x22 then
            (case scan_string [] cs of None \<Rightarrow> None | Some (str, r) \<Rightarrow> Some (JStr str, r))
          else if c = CHR ''{'' then
            (case skip_ws cs of
               [] \<Rightarrow> None
             | d # r \<Rightarrow>
                 if d = CHR ''}'' then Some (JObj [], r)
                 else if d = CHR 0x22 then scan_pairs fuel [] r
                 else None)
          else if c = CHR ''['' then
            (case skip_ws cs of
               [] \<Rightarrow> None
             | d # r \<Rightarrow>
                 if d = CHR '']'' then Some (JArr [], r)
                 else scan_items fuel [] (d # r))
          else if prefix ''null'' s then Some (JNull, drop 4 s)
          else if prefix ''true'' s then Some (JBool True, drop 4 s)
          else if prefix ''false'' s then Some (JBool False, drop 5 s)
          else
            (case scan_number s of
               Some found \<Rightarrow> Some found
             | None \<Rightarrow>
                 if prefix ''NaN'' s then Some (JFloat ''NaN'', drop 3 s)
                 else if prefix ''Infinity'' s then Some (JFloat ''Infinity'', drop 8 s)
                 else if prefix ''-Infinity'' s then Some (JFloat ''-Infinity'', drop 9 s)
                 else None))"
| "scan_items 0 items s = None"
| "scan_items (Suc fuel) items s =
     \<comment> \<open>\<open>s\<close> starts at an element of the array\<close>
     (case scan_once fuel s of
        None \<Rightarrow> None
      | Some (v, r) \<Rightarrow>
          (case skip_ws r of
             [] \<Rightarrow> None
           | d # r' \<Rightarrow>
               if d = CHR '']'' then Some (JArr (items @ [v]), r')
               else if d = CHR '','' then scan_items fuel (items @ [v]) (skip_ws r')
               else None))"
| "scan_pairs 0 pairs s = None"
| "scan_pairs (Suc fuel) pairs s =
     \<comment> \<open>\<open>s\<close> starts after the opening quote of a key\<close>
     (case scan_string [] s of
        None \<Rightarrow> None
      | Some (key, r) \<Rightarrow>
          (case skip_ws r of
             [] \<Rightarrow> None
           | colon # r1 \<Rightarrow>
               if colon \<noteq> CHR '':'' then None
               else
                 (case scan_once fuel (skip_ws r1) of
                    None \<Rightarrow> None
                  | Some (v, r2) \<Rightarrow>
                      (case skip_ws r2 of
                         [] \<Rightarrow> None
                       | d # r3 \<Rightarrow>
                           if d = CHR ''}'' then Some (JObj (dict_set pairs key v), r3)
                           else if d = CHR '','' then
                             (case skip_ws r3 of
                                [] \<Rightarrow> None
                              | q # r4 \<Rightarrow>
                                  if q = CHR 0x22
                                  then scan_pairs fuel (dict_set pairs key v) r4
                                  else None)
                           else None))))"

definition json_loads :: "string \<Rightarrow> py_exn + json" where
  "json_loads s =
     (case scan_once (2 * length s + 2) (skip_ws s) of
        None \<Rightarrow> Inl JSONDecodeError
      | Some (v, r) \<Rightarrow> if skip_ws r = [] then Inr v else Inl JSONDecodeError)"

definition hex_digit :: "nat \<Rightarrow> char" where
  "hex_digit n = (if n < 10 then char_of (48 + n) else char_of (87 + n))"

fun decimal :: "nat \<Rightarrow> string" where
  "decimal n = (if n < 10 then [char_of (48 + n)] else decimal (n div 10) @ [char_of (48 + n mod 10)])"

declare decimal.simps [simp del]

definition escape_char :: "char \<Rightarrow> string" where
  \<comment> \<open>\<^verbatim>\<open>ensure_ascii\<close>: everything outside the printable ASCII range is escaped\<close>
  "escape_char c =
     (if c = CHR 0x22 then [CHR 0x5C, CHR 0x22]
      else if c = CHR 0x5C then [CHR 0x5C, CHR 0x5C]
      else if 32 \<le> (of_char c :: nat) \<and> (of_char c :: nat) \<le> 126 then [c]
      else if c = CHR 0x0A then [CHR 0x5C, CHR ''n'']
      else if c = CHR 0x0D then [CHR 0x5C, CHR ''r'']
      else if c = CHR 0x09 then [CHR 0x5C, CHR ''t'']
      else if c = CHR 0x08 then [CHR 0x5C, CHR ''b'']
      else if c = CHR 0x0C then [CHR 0x5C, CHR ''f'']
      else [CHR 0x5C, CHR ''u'', CHR ''0'', CHR ''0'',
            hex_digit (of_char c div 16), hex_digit (of_char c mod 16)])"

definition quoted :: "string \<Rightarrow> string" where
  "quoted s = [CHR 0x22] @ concat (map escape_char s) @ [CHR 0x22]"

fun join :: "string \<Rightarrow> string list \<Rightarrow> string" where
  "join sep [] = []"
| "join sep [x] = x"
| "join sep (x # y # ys) = x @ sep @ join sep (y # ys)"

definition newline_indent :: "nat \<Rightarrow> string" where
  "newline_indent level = CHR 0x0A # replicate (2 * level) CHR '' ''"

fun encode :: "nat \<Rightarrow> json \<Rightarrow> string"
  and encode_items :: "nat \<Rightarrow> json list \<Rightarrow> string list"
  and encode_pairs :: "nat \<Rightarrow> (string \<times> json) list \<Rightarrow> string list" where
  "encode level JNull = ''null''"
| "encode level (JBool b) = (if b then ''true'' else ''false'')"
| "encode level (JInt n) = (if n < 0 then ''-'' @ decimal (nat (- n)) else decimal (nat n))"
| "encode level (JFloat lexeme) = lexeme"
| "encode level (JStr s) = quoted s"
| "encode level (JArr xs) =
     (if xs = [] then ''[]''
      else ''['' @ newline_indent (level + 1)
           @ join ('','' @ newline_indent (level + 1)) (encode_items (level + 1) xs)
           @ newline_indent level @ '']'')"
| "encode level (JObj kvs) =
     (if kvs = [] then ''{}''
      else ''{'' @ newline_indent (level + 1)
           @ join ('','' @ newline_indent (level + 1)) (encode_pairs (level + 1) kvs)
           @ newline_indent level @ ''}'')"
| "encode_items level [] = []"
| "encode_items level (x # xs) = encode level x # encode_items level xs"
| "encode_pairs level [] = []"
| "encode_pairs level ((k, v) # kvs) =
     (quoted k @ '': '' @ encode level v) # encode_pairs level kvs"

definition json_dumps :: "json \<Rightarrow> string" where
  "json_dumps v = encode 0 v"

text \<open>
  Services whose answers are scripted: the reply of the classification call, the network,
  and the outcome of the generation call are given; the JSON functions are the reference
  ones.
\<close>

definition scripted ::
  "(py_exn + string option) \<Rightarrow> http \<Rightarrow> (chunk list \<times> py_exn option) \<Rightarrow> services" where
  "scripted reply network stream =
     \<lparr>classify = (\<lambda>query. reply), loads = json_loads, dumps = json_dumps,
      fetch = network, generate_stream = (\<lambda>system_message user_query. stream)\<rparr>"

definition unreachable :: http where
  \<comment> \<open>a network on which every request raises\<close>
  "unreachable url params = Inl ''connection refused''"

definition serving :: "json \<Rightarrow> http" where
  \<comment> \<open>a network on which every request is answered with the same body\<close>
  "serving body url params = Inr body"

definition new_session :: session where
  "new_session = \<lparr>messages = initial_messages, requests = [], generations = []\<rparr>"

section \<open>Notions of the specification\<close>

text \<open>
  A well-formed Routing Decision, in the words of the specification: an object whose
  \<^verbatim>\<open>needs_api\<close> is a boolean and which, when that is true, names the operation by a string
  and gives the parameters as a mapping.
\<close>

fun is_boolean :: "json \<Rightarrow> bool" where
  "is_boolean (JBool b) = True"
| "is_boolean other = False"

fun is_string :: "json \<Rightarrow> bool" where
  "is_string (JStr s) = True"
| "is_string other = False"

fun is_mapping :: "json \<Rightarrow> bool" where
  "is_mapping (JObj kvs) = True"
| "is_mapping other = False"

fun well_formed_decision :: "json \<Rightarrow> bool" where
  "well_formed_decision (JObj kvs) =
     (is_boolean (dict_get kvs ''needs_api'' JNull)
      \<and> (if dict_get kvs ''needs_api'' JNull = JBool True
         then is_string (dict_get kvs ''function'' JNull)
              \<and> is_mapping (dict_get kvs ''params'' JNull)
         else True))"
| "well_formed_decision other = False"



section \<open>Properties of the registry\<close>

lemma dict_has_iff_map_of: "dict_has d k \<longleftrightarrow> map_of d k \<noteq> None"
  by (simp add: dict_has_def map_of_eq_None_iff)

lemma registered_names:
  "dict_has API_ENDPOINTS n \<longleftrightarrow>
     n \<in> {''get_stock_details'', ''get_trending_stocks'', ''get_market_news'',
          ''get_mutual_funds'', ''get_ipo_data'', ''get_bse_most_active'',
          ''get_nse_most_active'', ''get_historical_data''}"
  by (simp add: dict_has_def API_ENDPOINTS_def)


lemma first_missing_Some:
  "p \<in> set req \<Longrightarrow> \<not> dict_has kw p \<Longrightarrow>
     \<exists>q. first_missing req kw = Some q \<and> q \<in> set req \<and> \<not> dict_has kw q"
  by (induction req) auto

lemma first_missing_None: "first_missing req kw = None \<longleftrightarrow> (\<forall>p \<in> set req. dict_has kw p)"
  by (induction req) auto

lemma map_of_dict_set: "map_of (dict_set d k v) = (map_of d)(k \<mapsto> v)"
  by (simp add: dict_set_def update_conv')

lemma map_of_apply_mapping:
  "map_of (apply_mapping api m kw) =
     map_of m ++ map_of (rev (map (\<lambda>(k, v). (mapped_name api k, v)) kw))"
proof (induction kw arbitrary: m)
  case Nil
  then show ?case by simp
next
  case (Cons a kw)
  obtain k v where a: "a = (k, v)" by (cases a)
  show ?case
    by (auto simp: a Cons.IH map_of_dict_set map_add_def fun_eq_iff split: option.splits)
qed

lemma map_of_apply_defaults:
  "map_of (apply_defaults m ds) = map_of ds ++ map_of m"
proof (induction ds arbitrary: m)
  case Nil
  then show ?case by simp
next
  case (Cons a ds)
  obtain k v where a: "a = (k, v)" by (cases a)
  show ?case
    by (auto simp: a Cons.IH map_of_dict_set dict_has_iff_map_of map_add_def fun_eq_iff split: option.splits)
qed

lemma resolve_registered:
  "map_of API_ENDPOINTS api_name = Some api \<Longrightarrow>
   resolve api_name kwargs =
     (case first_missing (get_or [] (required_params api)) kwargs of
        Some param \<Rightarrow> Failure (error_obj (''Missing required parameter: '' @ param))
      | None \<Rightarrow>
          Request (endpoint api)
            (apply_defaults (apply_mapping api [] kwargs) (get_or [] (default_values api))))"
  by (simp add: resolve_def dict_has_iff_map_of)

text \<open>
  Claim C8. For every operation name that is not a key of the registry, and whatever the
  caller's parameters are, resolution fails with the error object
  \<^verbatim>\<open>{"error": "Unknown API: <name>"}\<close>; \<^verbatim>\<open>call_api_by_name\<close> returns that object and
  sends no request.
\<close>

theorem unknown_operation_rejected:
  assumes "\<not> dict_has API_ENDPOINTS api_name"
  shows "resolve api_name kwargs = Failure (error_obj (''Unknown API: '' @ api_name))
       \<and> call_api_by_name http_get api_name kwargs log =
           (error_obj (''Unknown API: '' @ api_name), log)"
  using assms by (simp add: resolve_def call_api_by_name_def)

theorem unknown_operation_rejected_witness:
  "\<not> dict_has API_ENDPOINTS ''get_weather''
   \<and> resolve ''get_weather'' [(''city'', JStr ''Pune'')] =
       Failure (JObj [(''error'', JStr ''Unknown API: get_weather'')])
   \<and> call_api_by_name (\<lambda>url params. Inr JNull) ''get_weather'' [(''city'', JStr ''Pune'')] [] =
       (JObj [(''error'', JStr ''Unknown API: get_weather'')], [])"
proof -
  have h: "\<not> dict_has API_ENDPOINTS ''get_weather''"
    by (simp add: registered_names)
  show ?thesis
    using h unknown_operation_rejected [OF h, of "[(''city'', JStr ''Pune'')]" "\<lambda>url params. Inr JNull" "[]"]
    by (simp add: error_obj_def)
qed

text \<open>
  Claim C7. For every registered operation and every parameter dictionary that lacks one of
  the operation's required parameters, resolution fails with the error object
  \<^verbatim>\<open>{"error": "Missing required parameter: <q>"}\<close>, where \<open>q\<close> is a required parameter
  that is absent from the dictionary, and the request log is unchanged: no network call.
\<close>

theorem missing_parameter_rejected:
  assumes "map_of API_ENDPOINTS api_name = Some api"
    and "p \<in> set (get_or [] (required_params api))"
    and "\<not> dict_has kwargs p"
  shows "\<exists>q. q \<in> set (get_or [] (required_params api)) \<and> \<not> dict_has kwargs q
       \<and> resolve api_name kwargs = Failure (error_obj (''Missing required parameter: '' @ q))
       \<and> call_api_by_name http_get api_name kwargs log =
           (error_obj (''Missing required parameter: '' @ q), log)"
proof -
  from first_missing_Some [OF assms(2,3)] obtain q
    where q: "first_missing (get_or [] (required_params api)) kwargs = Some q"
      "q \<in> set (get_or [] (required_params api))" "\<not> dict_has kwargs q"
    by blast
  have "resolve api_name kwargs = Failure (error_obj (''Missing required parameter: '' @ q))"
    by (simp add: resolve_registered [OF assms(1)] q(1))
  then show ?thesis
    using q(2,3) by (auto simp: call_api_by_name_def)
qed


theorem missing_parameter_rejected_witness:
  "map_of API_ENDPOINTS ''get_historical_data'' \<noteq> None
   \<and> \<not> dict_has [(''period'', JStr ''1y'')] ''stock_name''
   \<and> resolve ''get_historical_data'' [(''period'', JStr ''1y'')] =
       Failure (JObj [(''error'', JStr ''Missing required parameter: stock_name'')])
   \<and> call_api_by_name (\<lambda>url params. Inr JNull) ''get_historical_data''
         [(''period'', JStr ''1y'')] [] =
       (JObj [(''error'', JStr ''Missing required parameter: stock_name'')], [])"
proof -
  let ?api = "\<lparr>endpoint = ''/historical_data'', required_params = Some [''stock_name''],
         optional_params = Some [''period''],
         default_values = Some [(''period'', JStr ''1m''), (''filter'', JStr ''default'')],
         param_mapping = Some [],
         description = ''Get historical data for a stock''\<rparr>"
  have a: "map_of API_ENDPOINTS ''get_historical_data'' = Some ?api"
    by (simp add: API_ENDPOINTS_def)
  have b: "''stock_name'' \<in> set (get_or [] (required_params ?api))"
    by (simp add: get_or_def)
  have c: "\<not> dict_has [(''period'', JStr ''1y'')] ''stock_name''"
    by (simp add: dict_has_def)
  show ?thesis
    using a c missing_parameter_rejected [OF a b c, of "\<lambda>url params. Inr JNull" "[]"]
    by (simp add: get_or_def error_obj_def)
qed

lemma keys_single:
  assumes "distinct (map fst kw)" and "set (map fst kw) = {k}"
  shows "\<exists>v. kw = [(k, v)]"
proof (cases kw)
  case Nil
  with assms show ?thesis by simp
next
  case (Cons a rest)
  obtain k' v where a: "a = (k', v)" by (cases a)
  from assms(2) Cons a have k': "k' = k" by auto
  have "rest = []"
  proof (cases rest)
    case Nil
    then show ?thesis .
  next
    case (Cons b rest')
    from assms(2) \<open>kw = a # rest\<close> Cons have "fst b = k" by auto
    with assms(1) \<open>kw = a # rest\<close> Cons a k' show ?thesis by auto
  qed
  with Cons a k' show ?thesis by simp
qed

text \<open>
  Claim C5. For every registered operation, resolving it with exactly its required
  parameters (and nothing else) succeeds with the operation's endpoint, and the parameters
  of the request are the supplied ones, each under the provider-facing key that the
  operation's \<^verbatim>\<open>param_mapping\<close> gives for it (its own key when the mapping has no entry),
  followed by the operation's defaults. The two instances that follow the theorem are
  \<^verbatim>\<open>get_stock_details\<close>, whose parameter \<^verbatim>\<open>stock_name\<close> is sent as \<^verbatim>\<open>name\<close>, and the
  instance of the claim, \<^verbatim>\<open>get_historical_data\<close> with \<^verbatim>\<open>stock_name = "TCS"\<close>.
\<close>

theorem resolve_required_only:
  assumes "map_of API_ENDPOINTS api_name = Some api"
    and "distinct (map fst kwargs)"
    and "set (map fst kwargs) = set (get_or [] (required_params api))"
  shows "resolve api_name kwargs =
     Request (endpoint api)
       (map (\<lambda>(param, val).
               (case map_of (get_or [] (param_mapping api)) param of
                  None \<Rightarrow> param
                | Some provider_name \<Rightarrow> provider_name, val)) kwargs
          @ get_or [] (default_values api))"
proof -
  from assms(1) have "(api_name, api) \<in> set API_ENDPOINTS"
    by (rule map_of_SomeD)
  then consider
      (none) "get_or [] (required_params api) = []" "get_or [] (default_values api) = []"
    | (stock) "get_or [] (required_params api) = [''stock_name'']"
        "get_or [] (default_values api) = []"
        "get_or [] (param_mapping api) = [(''stock_name'', ''name'')]"
    | (hist) "get_or [] (required_params api) = [''stock_name'']"
        "get_or [] (default_values api) =
           [(''period'', JStr ''1m''), (''filter'', JStr ''default'')]"
        "get_or [] (param_mapping api) = []"
    by (auto simp: API_ENDPOINTS_def get_or_def)
  then show ?thesis
  proof cases
    case none
    with assms(3) have "kwargs = []" by simp
    with none show ?thesis
      by (simp add: resolve_registered [OF assms(1)])
  next
    case stock
    with assms(3) have "set (map fst kwargs) = {''stock_name''}" by simp
    from keys_single [OF assms(2) this] obtain v where "kwargs = [(''stock_name'', v)]" ..
    with stock show ?thesis
      by (simp add: resolve_registered [OF assms(1)] dict_has_def dict_set_def
          mapped_name_def dict_get_def)
  next
    case hist
    with assms(3) have "set (map fst kwargs) = {''stock_name''}" by simp
    from keys_single [OF assms(2) this] obtain v where "kwargs = [(''stock_name'', v)]" ..
    with hist show ?thesis
      by (simp add: resolve_registered [OF assms(1)] dict_has_def dict_set_def
          mapped_name_def dict_get_def)
  qed
qed

theorem resolve_required_only_witness:
  "map_of API_ENDPOINTS ''get_stock_details'' \<noteq> None
   \<and> map_of API_ENDPOINTS ''get_historical_data'' \<noteq> None
   \<and> distinct (map fst [(''stock_name'', JStr ''TCS'')])
   \<and> resolve ''get_stock_details'' [(''stock_name'', JStr ''TCS'')] =
       Request ''/stock'' [(''name'', JStr ''TCS'')]
   \<and> resolve ''get_historical_data'' [(''stock_name'', JStr ''TCS'')] =
       Request ''/historical_data''
         [(''stock_name'', JStr ''TCS''), (''period'', JStr ''1m''),
          (''filter'', JStr ''default'')]"
proof -
  let ?stock = "\<lparr>endpoint = ''/stock'', required_params = Some [''stock_name''],
         optional_params = None, default_values = None,
         param_mapping = Some [(''stock_name'', ''name'')],
         description = ''Get details for a specific stock''\<rparr>"
  let ?hist = "\<lparr>endpoint = ''/historical_data'', required_params = Some [''stock_name''],
         optional_params = Some [''period''],
         default_values = Some [(''period'', JStr ''1m''), (''filter'', JStr ''default'')],
         param_mapping = Some [],
         description = ''Get historical data for a stock''\<rparr>"
  let ?kw = "[(''stock_name'', JStr ''TCS'')]"
  have s: "map_of API_ENDPOINTS ''get_stock_details'' = Some ?stock"
    by (simp add: API_ENDPOINTS_def)
  have h: "map_of API_ENDPOINTS ''get_historical_data'' = Some ?hist"
    by (simp add: API_ENDPOINTS_def)
  have d: "distinct (map fst ?kw)" by simp
  have ks: "set (map fst ?kw) = set (get_or [] (required_params ?stock))"
    by (simp add: get_or_def)
  have kh: "set (map fst ?kw) = set (get_or [] (required_params ?hist))"
    by (simp add: get_or_def)
  show ?thesis
    using s h d resolve_required_only [OF s d ks] resolve_required_only [OF h d kh]
    by (simp add: get_or_def)
qed

text \<open>
  Claim C9. Whenever resolution succeeds, the final parameters are, as a mapping, the
  defaults overridden by the supplied parameters under their provider-facing names: a
  supplied key is renamed by the operation's rename map and passes through unchanged when
  the map has no entry for it (a later supplied parameter overrides an earlier one with the
  same provider-facing name), and a default is used only for a key that no supplied
  parameter was renamed to.
\<close>

theorem resolve_renames_then_defaults:
  assumes "resolve api_name kwargs = Request ep ps"
  shows "\<exists>api. map_of API_ENDPOINTS api_name = Some api \<and> ep = endpoint api
       \<and> map_of ps =
           map_of (get_or [] (default_values api))
             ++ map_of (rev (map (\<lambda>(param, val).
                   (case map_of (get_or [] (param_mapping api)) param of
                      None \<Rightarrow> param | Some provider_name \<Rightarrow> provider_name, val)) kwargs))"
proof -
  from assms have "dict_has API_ENDPOINTS api_name"
    by (auto simp: resolve_def split: if_splits)
  then obtain api where api: "map_of API_ENDPOINTS api_name = Some api"
    by (auto simp: dict_has_iff_map_of)
  have mn: "(\<lambda>(param, val). (mapped_name api param, val)) =
      (\<lambda>(param, val). (case map_of (get_or [] (param_mapping api)) param of
                      None \<Rightarrow> param | Some provider_name \<Rightarrow> provider_name, val))"
    by (simp add: mapped_name_def dict_get_def fun_eq_iff)
  from assms have "ep = endpoint api"
    and "ps = apply_defaults (apply_mapping api [] kwargs) (get_or [] (default_values api))"
    by (auto simp: resolve_registered [OF api] split: option.splits)
  then show ?thesis
    using api by (simp add: map_of_apply_defaults map_of_apply_mapping mn)
qed

theorem resolve_renames_then_defaults_witness:
  "resolve ''get_historical_data'' [(''stock_name'', JStr ''TCS''), (''period'', JStr ''6m'')] =
     Request ''/historical_data''
       [(''stock_name'', JStr ''TCS''), (''period'', JStr ''6m''), (''filter'', JStr ''default'')]
   \<and> map_of [(''stock_name'', JStr ''TCS''), (''period'', JStr ''6m''),
              (''filter'', JStr ''default'')] =
       map_of [(''period'', JStr ''1m''), (''filter'', JStr ''default'')]
         ++ map_of [(''period'', JStr ''6m''), (''stock_name'', JStr ''TCS'')]"
proof -
  let ?kw = "[(''stock_name'', JStr ''TCS''), (''period'', JStr ''6m'')]"
  let ?ps = "[(''stock_name'', JStr ''TCS''), (''period'', JStr ''6m''),
              (''filter'', JStr ''default'')]"
  have r: "resolve ''get_historical_data'' ?kw = Request ''/historical_data'' ?ps"
    by (simp add: resolve_def dict_has_def API_ENDPOINTS_def get_or_def mapped_name_def
        dict_get_def dict_set_def)
  show ?thesis
    using r resolve_renames_then_defaults [OF r]
    by (auto simp: API_ENDPOINTS_def get_or_def)
qed

text \<open>
  Claim C10. For \<^verbatim>\<open>get_stock_details\<close> the caller-facing keys \<^verbatim>\<open>stock_name\<close> and
  \<^verbatim>\<open>name\<close> are both translated to the provider-facing key \<^verbatim>\<open>name\<close>; when both are
  supplied, resolution does not fail and the request carries one value only, that of the key
  iterated later.
\<close>

theorem rename_collision_last_wins:
  "mapped_name (the (map_of API_ENDPOINTS ''get_stock_details'')) ''stock_name'' = ''name''
   \<and> mapped_name (the (map_of API_ENDPOINTS ''get_stock_details'')) ''name'' = ''name''
   \<and> resolve ''get_stock_details'' [(''stock_name'', JStr ''TCS''), (''name'', JStr ''INFY'')] =
       Request ''/stock'' [(''name'', JStr ''INFY'')]
   \<and> resolve ''get_stock_details'' [(''name'', JStr ''INFY''), (''stock_name'', JStr ''TCS'')] =
       Request ''/stock'' [(''name'', JStr ''TCS'')]"
  by (simp add: resolve_def dict_has_def API_ENDPOINTS_def get_or_def mapped_name_def
      dict_get_def dict_set_def)

section \<open>Properties of the extraction\<close>

lemma sublist_extend_right: "sublist xs ys \<Longrightarrow> sublist xs (ys @ zs)"
proof -
  assume "sublist xs ys"
  then obtain ps ss where "ys = ps @ xs @ ss" by (auto simp: sublist_def)
  then have "ys @ zs = ps @ xs @ (ss @ zs)" by simp
  then show ?thesis unfolding sublist_def by blast
qed

lemma sublist_extend_left: "sublist xs ys \<Longrightarrow> sublist xs (zs @ ys)"
proof -
  assume "sublist xs ys"
  then obtain ps ss where "ys = ps @ xs @ ss" by (auto simp: sublist_def)
  then have "zs @ ys = (zs @ ps) @ xs @ ss" by simp
  then show ?thesis unfolding sublist_def by blast
qed

lemma fence_in_marker: "sublist ''```json'' b \<Longrightarrow> sublist ''```'' b"
proof -
  assume "sublist ''```json'' b"
  then obtain ps ss where "b = ps @ ''```json'' @ ss" by (auto simp: sublist_def)
  then have "b = ps @ ''```'' @ (''json'' @ ss)" by simp
  then show ?thesis unfolding sublist_def by blast
qed

text \<open>\<open>break_at\<close> finds the first occurrence of the marker, and fails exactly when there is none.\<close>

lemma break_at_None:
  "marker \<noteq> [] \<Longrightarrow> break_at marker before s = None \<longleftrightarrow> \<not> sublist marker s"
  by (induction s arbitrary: before) (auto simp: sublist_Cons_right)

lemma break_at_Some:
  "break_at marker before s = Some (a, b) \<Longrightarrow>
     before @ s = a @ marker @ b
     \<and> (\<exists>a'. a = before @ a' \<and> \<not> sublist marker (a' @ butlast marker))"
proof (induction s arbitrary: before)
  case Nil
  then show ?case by simp
next
  case (Cons c cs)
  show ?case
  proof (cases "marker \<noteq> [] \<and> prefix marker (c # cs)")
    case True
    with Cons.prems have ab: "a = before" "b = drop (length marker) (c # cs)" by auto
    from True obtain r where r: "c # cs = marker @ r" by (auto simp: prefix_def)
    have "length (butlast marker) < length marker" using True by (cases marker) auto
    then have "\<not> sublist marker (butlast marker)"
      using sublist_length_le [of marker "butlast marker"] by auto
    with ab r show ?thesis by auto
  next
    case False
    with Cons.prems have "break_at marker (before @ [c]) cs = Some (a, b)" by auto
    from Cons.IH [OF this] obtain a' where
      eq: "(before @ [c]) @ cs = a @ marker @ b" and a: "a = (before @ [c]) @ a'"
      and no: "\<not> sublist marker (a' @ butlast marker)" by blast
    from eq a have cs: "cs = a' @ marker @ b" by simp
    have "\<not> sublist marker ((c # a') @ butlast marker)"
    proof
      assume "sublist marker ((c # a') @ butlast marker)"
      then have p: "prefix marker (c # a' @ butlast marker)"
        using no by (simp add: sublist_Cons_right)
      have "prefix (a' @ butlast marker) cs"
        unfolding cs by (cases marker rule: rev_cases) (auto simp: prefix_def)
      then have "prefix (c # a' @ butlast marker) (c # cs)" by simp
      with p have "prefix marker (c # cs)" by (rule prefix_order.trans)
      moreover from p no have "marker \<noteq> []" by auto
      ultimately show False using False by simp
    qed
    with eq a show ?thesis by auto
  qed
qed

lemma break_at_first:
  assumes "marker \<noteq> []" and "\<not> sublist marker (a @ butlast marker)"
  shows "break_at marker before (a @ marker @ b) = Some (before @ a, b)"
  using assms(2)
proof (induction a arbitrary: before)
  case Nil
  with assms(1) show ?case by (cases marker) auto
next
  case (Cons x a)
  have "\<not> prefix marker (x # a @ marker @ b)"
  proof
    assume p: "prefix marker (x # a @ marker @ b)"
    have "prefix ((x # a) @ butlast marker) (x # a @ marker @ b)"
      using assms(1) by (cases marker rule: rev_cases) (auto simp: prefix_def)
    moreover have "length marker \<le> length ((x # a) @ butlast marker)"
      using assms(1) by (cases marker rule: rev_cases) auto
    ultimately have "prefix marker ((x # a) @ butlast marker)"
      using p by (metis prefix_length_prefix)
    then have "sublist marker ((x # a) @ butlast marker)"
      by (rule prefix_imp_sublist)
    with Cons.prems show False by simp
  qed
  moreover have "\<not> sublist marker (a @ butlast marker)"
    using Cons.prems by (simp add: sublist_Cons_right)
  ultimately show ?case
    using Cons.IH [of "before @ [x]"] by simp
qed

lemma split_pieces_break:
  "marker \<noteq> [] \<Longrightarrow>
   split_pieces marker cur s =
     (case break_at marker cur s of
        None \<Rightarrow> [cur @ s]
      | Some (a, b) \<Rightarrow> a # split_pieces marker [] b)"
  by (induction marker cur s rule: split_pieces.induct) (auto split: option.splits)

text \<open>
  The piece that \<^verbatim>\<open>split("```json")[1]\<close> selects ends at the next marker \<^verbatim>\<open>```json\<close>;
  cutting it at its first fence gives the contents of the block unless that marker overlaps
  the closing fence.
\<close>

lemma labelled_piece:
  assumes j: "break_at ''```json'' [] b = Some (b1, c)"
    and f: "break_at ''```'' [] b = Some (body, after)"
    and h: "\<not> prefix ''`json'' after" "\<not> prefix ''``json'' after"
  shows "(case break_at ''```'' [] b1 of None \<Rightarrow> b1 | Some (x, y) \<Rightarrow> x) = body"
proof -
  from break_at_Some [OF j] have bj: "b = b1 @ ''```json'' @ c" by simp
  from break_at_Some [OF f] have bf: "b = body @ ''```'' @ after"
    and first: "\<not> sublist ''```'' (body @ ''``'')" by simp_all
  have "prefix body b1"
  proof (rule ccontr)
    assume n: "\<not> prefix body b1"
    have "prefix b1 b" using bj by (simp add: prefix_def)
    moreover have "prefix body b" using bf by (simp add: prefix_def)
    ultimately have "prefix b1 body \<or> prefix body b1"
      by (metis prefix_same_cases)
    with n obtain r where r: "body = b1 @ r" "r \<noteq> []" by (auto simp: prefix_def)
    with bj bf have "r @ ''```'' @ after = ''```json'' @ c" by simp
    then have "sublist ''```'' (r @ ''``'')"
      using r(2) by (cases r; cases "tl r"; cases "tl (tl r)")
        (auto simp: sublist_Cons_right sublist_append)
    then have "sublist ''```'' (b1 @ r @ ''``'')"
      by (rule sublist_extend_left)
    then have "sublist ''```'' (body @ ''``'')"
      by (simp add: r(1))
    with first show False by simp
  qed
  then obtain r where r: "b1 = body @ r" by (auto simp: prefix_def)
  with bj bf have eq: "r @ ''```json'' @ c = ''```'' @ after" by simp
  have nb: "\<not> sublist ''```'' body"
    using first sublist_extend_right [of "''```''" body "''``''"] by blast
  consider (zero) "r = []" | (three) r' where "r = ''```'' @ r'"
    using eq h by (cases r; cases "tl r"; cases "tl (tl r)") auto
  then show ?thesis
  proof cases
    case zero
    with r nb show ?thesis
      using break_at_None [of "''```''" "[]" body] by simp
  next
    case three
    have "break_at ''```'' [] (body @ ''```'' @ r') = Some ([] @ body, r')"
      by (rule break_at_first) (use first in simp_all)
    with r three show ?thesis by simp
  qed
qed

text \<open>
  Claim C6, amended. The payload handed to the JSON decoder follows the three tiers: the
  trimmed contents of the first block opened by \<^verbatim>\<open>```json\<close> when the text has that marker,
  else the trimmed contents of the first fenced block when the text has a fence, else the
  whole trimmed text; the contents of a block end before the next fence or at the end of the
  text. This holds for every text in which no second marker \<^verbatim>\<open>```json\<close> overlaps the fence
  that closes the first labelled block.
\<close>

theorem extraction_three_tier:
  assumes "\<not> overlapped_fence t"
  shows "extract_json_str (Some t) = Inr (payload_by_fallback t)"
proof -
  have j: "''```json'' \<noteq> []" and f: "''```'' \<noteq> []" by simp_all
  show ?thesis
  proof (cases "sublist ''```json'' t")
    case True
    then obtain a b where b: "break_at ''```json'' [] t = Some (a, b)"
      using break_at_None [OF j, of "[]" t] by (cases "break_at ''```json'' [] t") auto
    have code: "extract_json_str (Some t) =
        Inr (py_strip (case break_at ''```'' []
                (case break_at ''```json'' [] b of None \<Rightarrow> b | Some (b1, c) \<Rightarrow> b1) of
              None \<Rightarrow> (case break_at ''```json'' [] b of None \<Rightarrow> b | Some (b1, c) \<Rightarrow> b1)
            | Some (x, y) \<Rightarrow> x))"
      using True b
      by (simp add: extract_json_str_def and_then_def py_split_def py_getitem_def
          split_pieces_break [OF j] split_pieces_break [OF f] split: option.splits)
    have spec: "payload_by_fallback t =
        py_strip (case break_at ''```'' [] b of None \<Rightarrow> b | Some (body, after) \<Rightarrow> body)"
      using b by (simp add: payload_by_fallback_def fenced_contents_def)
    show ?thesis
    proof (cases "break_at ''```json'' [] b")
      case None
      then show ?thesis by (simp add: code spec split: option.splits)
    next
      case (Some p)
      obtain b1 c where p: "p = (b1, c)" by (cases p)
      from Some p have "sublist ''```json'' b"
        using break_at_None [OF j, of "[]" b] by auto
      then have "sublist ''```'' b"
        by (rule fence_in_marker)
      then obtain body after where ba: "break_at ''```'' [] b = Some (body, after)"
        using break_at_None [OF f, of "[]" b] by (cases "break_at ''```'' [] b") auto
      from assms b ba have h: "\<not> prefix ''`json'' after" "\<not> prefix ''``json'' after"
        by (simp_all add: overlapped_fence_def)
      from labelled_piece [OF Some [unfolded p] ba h]
      have "(case break_at ''```'' [] b1 of None \<Rightarrow> b1 | Some (x, y) \<Rightarrow> x) = body" .
      then show ?thesis
        by (auto simp: code spec Some p ba split: option.splits)
    qed
  next
    case False
    then have nj: "break_at ''```json'' [] t = None"
      using break_at_None [OF j, of "[]" t] by simp
    show ?thesis
    proof (cases "sublist ''```'' t")
      case True
      then obtain a b where b: "break_at ''```'' [] t = Some (a, b)"
        using break_at_None [OF f, of "[]" t] by (cases "break_at ''```'' [] t") auto
      show ?thesis
        using True False b nj
        by (simp add: extract_json_str_def payload_by_fallback_def fenced_contents_def
            and_then_def py_split_def py_getitem_def
            split_pieces_break [OF f] split: option.splits)
    next
      case nf: False
      then have "break_at ''```'' [] t = None"
        using break_at_None [OF f, of "[]" t] by simp
      with False nf nj show ?thesis
        by (simp add: extract_json_str_def payload_by_fallback_def fenced_contents_def)
    qed
  qed
qed

theorem extraction_three_tier_witness:
  "\<not> overlapped_fence ''Sure:\<newline>```json\<newline>{\"needs_api\": false}\<newline>```\<newline>Done.''
   \<and> extract_json_str (Some ''Sure:\<newline>```json\<newline>{\"needs_api\": false}\<newline>```\<newline>Done.'') =
       Inr ''{\"needs_api\": false}''
   \<and> payload_by_fallback ''Sure:\<newline>```json\<newline>{\"needs_api\": false}\<newline>```\<newline>Done.'' =
       ''{\"needs_api\": false}''"
proof -
  let ?t = "''Sure:\<newline>```json\<newline>{\"needs_api\": false}\<newline>```\<newline>Done.''"
  have h: "\<not> overlapped_fence ?t" by code_simp
  have p: "payload_by_fallback ?t = ''{\"needs_api\": false}''" by code_simp
  show ?thesis
    using h p extraction_three_tier [OF h] by simp
qed

text \<open>
  Claim C6 as stated fails: in the text below a block labelled \<^verbatim>\<open>json\<close> with the contents
  \<^verbatim>\<open>{}\<close> is closed by a fence that a second marker overlaps, and the payload keeps one
  backquote of that fence.
\<close>

theorem extraction_overlapped_fence_counterexample:
  "fenced_contents ''```json'' ''```json{}````json'' = Some ''{}''
   \<and> payload_by_fallback ''```json{}````json'' = ''{}''
   \<and> extract_json_str (Some ''```json{}````json'') = Inr ''{}`''"
  by code_simp

section \<open>Properties of the orchestrator\<close>

lemma split_pieces_nonempty: "split_pieces sep cur s \<noteq> []"
  by (induction sep cur s rule: split_pieces.induct) auto

lemma split_pieces_two:
  "sep \<noteq> [] \<Longrightarrow> sublist sep s \<Longrightarrow> 1 < length (split_pieces sep cur s)"
proof -
  assume sep: "sep \<noteq> []" and "sublist sep s"
  then obtain a b where "break_at sep cur s = Some (a, b)"
    using break_at_None [OF sep, of cur s] by (cases "break_at sep cur s") auto
  then show ?thesis
    using split_pieces_nonempty [of sep "[]" b]
    by (simp add: split_pieces_break [OF sep] Suc_lessI)
qed

lemma extract_total: "\<exists>payload. extract_json_str (Some t) = Inr payload"
proof -
  have j: "''```json'' \<noteq> []" and f: "''```'' \<noteq> []" by simp_all
  show ?thesis
  proof (cases "sublist ''```json'' t")
    case True
    from split_pieces_two [OF j True, of "[]"] show ?thesis
      using True split_pieces_nonempty [of "''```''" "[]"]
      by (simp add: extract_json_str_def and_then_def py_split_def py_getitem_def)
  next
    case False
    show ?thesis
    proof (cases "sublist ''```'' t")
      case True
      from split_pieces_two [OF f True, of "[]"] show ?thesis
        using True False
        by (simp add: extract_json_str_def and_then_def py_split_def py_getitem_def)
    next
      case nf: False
      with False show ?thesis by (simp add: extract_json_str_def)
    qed
  qed
qed

text \<open>
  Claim C1, amended. Whenever the classification call returns a reply, the orchestrator
  returns a value and raises nothing: the fallback \<^verbatim>\<open>{"needs_api": false}\<close> when the reply
  has no text or the decoder rejects the extracted payload (extraction itself never raises),
  and otherwise the decoded value as it is, whatever its shape.
\<close>

theorem orchestrator_absorbs_parse_failures:
  assumes "classify sv query = Inr decision_text"
  shows "\<exists>decision. orchestrator sv query = Inr decision
     \<and> (decision_text = None \<longrightarrow> decision = FALLBACK)
     \<and> (\<forall>t. decision_text = Some t \<longrightarrow>
           (\<exists>payload. extract_json_str (Some t) = Inr payload
              \<and> decision = (case loads sv payload of Inl e \<Rightarrow> FALLBACK | Inr v \<Rightarrow> v)))"
proof (cases decision_text)
  case None
  with assms show ?thesis
    by (simp add: orchestrator_def parse_response_def extract_json_str_def and_then_def)
next
  case (Some t)
  from extract_total [of t] obtain payload where p: "extract_json_str (Some t) = Inr payload" ..
  with assms Some show ?thesis
    by (auto simp: orchestrator_def parse_response_def and_then_def split: sum.splits)
qed

theorem orchestrator_absorbs_parse_failures_witness:
  "orchestrator (scripted (Inr (Some ''I think no data is needed.'')) unreachable ([], None))
      ''What is compound interest?'' = Inr (JObj [(''needs_api'', JBool False)])
   \<and> extract_json_str (Some ''I think no data is needed.'') = Inr ''I think no data is needed.''
   \<and> json_loads ''I think no data is needed.'' = Inl JSONDecodeError"
proof -
  let ?sv = "scripted (Inr (Some ''I think no data is needed.'')) unreachable ([], None)"
  have c: "classify ?sv ''What is compound interest?'' = Inr (Some ''I think no data is needed.'')"
    by (simp add: scripted_def)
  have e: "extract_json_str (Some ''I think no data is needed.'') = Inr ''I think no data is needed.''"
    by code_simp
  have l: "json_loads ''I think no data is needed.'' = Inl JSONDecodeError"
    by code_simp
  have s: "loads ?sv = json_loads" by (simp add: scripted_def)
  from orchestrator_absorbs_parse_failures [OF c] e l s show ?thesis
    by (auto simp: FALLBACK_def)
qed

text \<open>
  Claim C1 as stated fails: a reply that decodes to a value of the wrong shape is returned
  unchanged, not replaced by the fallback. Here \<^verbatim>\<open>needs_api\<close> is a string, and in the second
  reply the value is not even an object.
\<close>

theorem orchestrator_shape_counterexample:
  "orchestrator (scripted (Inr (Some ''{\"needs_api\": \"yes\"}'')) unreachable ([], None))
      ''Price of TCS?'' = Inr (JObj [(''needs_api'', JStr ''yes'')])
   \<and> \<not> well_formed_decision (JObj [(''needs_api'', JStr ''yes'')])
   \<and> JObj [(''needs_api'', JStr ''yes'')] \<noteq> FALLBACK
   \<and> orchestrator (scripted (Inr (Some ''[]'')) unreachable ([], None))
      ''Price of TCS?'' = Inr (JArr [])
   \<and> \<not> well_formed_decision (JArr [])"
  by code_simp

section \<open>Properties of the chat turn\<close>

lemma respond_messages: "messages (snd (respond sv st prompt)) = messages st"
  by (auto simp: respond_def Let_def split: sum.splits prod.splits option.splits)

lemma respond_generation_failure:
  assumes "\<And>system_message user_query. snd (generate_stream sv system_message user_query) \<noteq> None"
  shows "\<exists>e. fst (respond sv st prompt) = Inl e"
proof -
  have "\<And>sm uq chunks failure. generate_stream sv sm uq = (chunks, failure) \<Longrightarrow> failure \<noteq> None"
    using assms by (metis snd_conv)
  then show ?thesis
    by (fastforce simp: respond_def Let_def split: sum.splits prod.splits option.splits)
qed

text \<open>
  Claim C3. A turn (a non-empty input) appends to the history exactly the user's message and
  then exactly one assistant message, in that order, whatever happens in between; when the
  generation call fails, the assistant message is the apology.
\<close>

theorem turn_appends_user_then_assistant:
  assumes "prompt \<noteq> []"
  shows "\<exists>reply. messages (chat_turn sv st prompt) =
           messages st @ [\<lparr>role = User, content = prompt\<rparr>, \<lparr>role = Model, content = reply\<rparr>]
       \<and> ((\<forall>system_message user_query.
              snd (generate_stream sv system_message user_query) \<noteq> None) \<longrightarrow> reply = APOLOGY)"
proof -
  let ?st1 = "st\<lparr>messages := messages st @ [\<lparr>role = User, content = prompt\<rparr>]\<rparr>"
  obtain outcome st2 where r: "respond sv ?st1 prompt = (outcome, st2)"
    by (cases "respond sv ?st1 prompt")
  let ?reply = "case outcome of Inl e \<Rightarrow> APOLOGY | Inr text \<Rightarrow> text"
  have "messages st2 = messages ?st1"
    using respond_messages [of sv ?st1 prompt] r by simp
  then have m: "messages (chat_turn sv st prompt) =
      messages st @ [\<lparr>role = User, content = prompt\<rparr>, \<lparr>role = Model, content = ?reply\<rparr>]"
    using assms r by (simp add: chat_turn_def Let_def)
  have "?reply = APOLOGY"
    if "\<forall>system_message user_query. snd (generate_stream sv system_message user_query) \<noteq> None"
  proof -
    from respond_generation_failure [of sv ?st1 prompt] that r
    obtain e where "outcome = Inl e" by auto
    then show ?thesis by simp
  qed
  with m show ?thesis by blast
qed

theorem turn_appends_user_then_assistant_witness:
  "''What is PPF?'' \<noteq> []
   \<and> messages (chat_turn (scripted (Inr (Some ''{\"needs_api\": false}'')) unreachable
                  ([Text ''PPF is ''], Some ServiceError)) new_session ''What is PPF?'') =
       initial_messages
         @ [\<lparr>role = User, content = ''What is PPF?''\<rparr>, \<lparr>role = Model, content = APOLOGY\<rparr>]"
proof -
  let ?sv = "scripted (Inr (Some ''{\"needs_api\": false}'')) unreachable
                  ([Text ''PPF is ''], Some ServiceError)"
  have h: "''What is PPF?'' \<noteq> []" by simp
  have g: "\<forall>system_message user_query. snd (generate_stream ?sv system_message user_query) \<noteq> None"
    by (simp add: scripted_def)
  from turn_appends_user_then_assistant [OF h, of ?sv new_session] g
  show ?thesis by (auto simp: new_session_def)
qed

section \<open>Properties of the conversation context\<close>










section \<open>Properties of the data context\<close>

lemma call_api_by_name_cases:
  "call_api_by_name net name kwargs log =
     (case resolve name kwargs of
        Failure err \<Rightarrow> (err, log)
      | Request path params \<Rightarrow>
          (case net (''https://stock.indianapi.in'' @ path) params of
             Inl msg \<Rightarrow> JObj [(''error'', JStr msg)]
           | Inr body \<Rightarrow> body,
           log @ [(''https://stock.indianapi.in'' @ path, params)]))"
  by (simp add: call_api_by_name_def call_indian_api_def INDIAN_API_BASE_URL_def error_obj_def
      Let_def split: resolution.splits sum.splits)

lemma chat_turn_logs:
  assumes "prompt \<noteq> []"
  shows "generations (chat_turn sv st prompt) =
           generations (snd (respond sv
             (st\<lparr>messages := messages st @ [\<lparr>role = User, content = prompt\<rparr>]\<rparr>) prompt))"
    and "requests (chat_turn sv st prompt) =
           requests (snd (respond sv
             (st\<lparr>messages := messages st @ [\<lparr>role = User, content = prompt\<rparr>]\<rparr>) prompt))"
  using assms by (simp_all add: chat_turn_def Let_def split: prod.splits)

lemma respond_with_context:
  assumes "orchestrator sv prompt = Inr decision"
    and "fetch_api_context sv decision (requests st) = (Inr api_context, log')"
  shows "generations (snd (respond sv st prompt)) =
           generations st @ [(system_message_for (messages st), user_query_for prompt api_context)]"
    and "requests (snd (respond sv st prompt)) = log'"
  using assms by (simp_all add: respond_def Let_def split: prod.splits)

text \<open>
  Claim C2, amended. Take a turn whose decision asks for data (\<^verbatim>\<open>needs_api\<close> is true),
  names the operation by a string and gives the parameters as a mapping without the key
  \<^verbatim>\<open>api_name\<close>. Generation proceeds in every case, with exactly one generation request.
  If the operation is not registered, the user query of that request is the bare prompt and
  nothing is sent to the provider. If it is registered, the user query carries the
  annotation \<^verbatim>\<open>[SYSTEM NOTE: ...]\<close> around a serialized JSON value: the body that the
  gateway returned when the fetch succeeds; the object \<^verbatim>\<open>{"error": message}\<close> when the
  fetch fails; the registry's error object, with no request sent, when resolution fails.
\<close>

theorem data_context_in_prompt:
  assumes "prompt \<noteq> []"
    and "orchestrator sv prompt = Inr (JObj decision)"
    and "py_truthy (dict_get decision ''needs_api'' (JBool False))"
    and "dict_get decision ''function'' (JStr []) = JStr name"
    and "dict_get decision ''params'' (JObj []) = JObj kwargs"
    and "\<not> dict_has kwargs ''api_name''"
  shows "\<exists>user_query serialized.
           generations (chat_turn sv st prompt) =
             generations st
               @ [(system_message_for (messages st @ [\<lparr>role = User, content = prompt\<rparr>]),
                   user_query)]
         \<and> (if \<not> dict_has API_ENDPOINTS name then
              user_query = prompt \<and> requests (chat_turn sv st prompt) = requests st
            else
              user_query =
                prompt @ ''\<newline>\<newline>[SYSTEM NOTE: \<newline>Here is the real-time market data from the Indian Stock ''
                @ ''Market API:\<newline>''
                @ serialized
                @ ''\<newline>\<newline>Please use this data to provide an informative response to the ''
                @ ''user'' @ [CHR 0x27] @ ''s query.]''
              \<and> sublist serialized user_query
              \<and> (case resolve name kwargs of
                    Failure err \<Rightarrow>
                      serialized = dumps sv err
                      \<and> requests (chat_turn sv st prompt) = requests st
                  | Request path params \<Rightarrow>
                      requests (chat_turn sv st prompt) =
                        requests st @ [(''https://stock.indianapi.in'' @ path, params)]
                      \<and> (case fetch sv (''https://stock.indianapi.in'' @ path) params of
                            Inr body \<Rightarrow> serialized = dumps sv body
                          | Inl msg \<Rightarrow> serialized = dumps sv (JObj [(''error'', JStr msg)]))))"
proof -
  let ?st1 = "st\<lparr>messages := messages st @ [\<lparr>role = User, content = prompt\<rparr>]\<rparr>"
  have st1: "messages ?st1 = messages st @ [\<lparr>role = User, content = prompt\<rparr>]"
    "requests ?st1 = requests st" "generations ?st1 = generations st"
    by simp_all
  show ?thesis
  proof (cases "dict_has API_ENDPOINTS name")
    case False
    have "fetch_api_context sv (JObj decision) (requests ?st1) = (Inr [], requests st)"
      using assms(3-5) False by (simp add: fetch_api_context_def)
    from respond_with_context [OF assms(2) this] False show ?thesis
      by (simp add: chat_turn_logs [OF assms(1)] user_query_for_def)
  next
    case True
    obtain api_result log' where c:
      "call_api_by_name (fetch sv) name kwargs (requests st) = (api_result, log')"
      by (cases "call_api_by_name (fetch sv) name kwargs (requests st)")
    let ?ser = "dumps sv api_result"
    let ?uq = "prompt @ ''\<newline>\<newline>[SYSTEM NOTE: \<newline>Here is the real-time market data from the Indian Stock ''
                @ ''Market API:\<newline>''
                @ ?ser
                @ ''\<newline>\<newline>Please use this data to provide an informative response to the ''
                @ ''user'' @ [CHR 0x27] @ ''s query.]''"
    have "fetch_api_context sv (JObj decision) (requests ?st1) =
        (Inr (api_context_text ?ser), log')"
      using assms(3-6) True c by (simp add: fetch_api_context_def)
    from respond_with_context [OF assms(2) this]
    have g: "generations (chat_turn sv st prompt) =
        generations st @ [(system_message_for (messages st @ [\<lparr>role = User, content = prompt\<rparr>]),
          user_query_for prompt (api_context_text ?ser))]"
      and r: "requests (chat_turn sv st prompt) = log'"
      by (simp_all add: chat_turn_logs [OF assms(1)])
    have uq: "user_query_for prompt (api_context_text ?ser) = ?uq"
      by (simp add: user_query_for_def api_context_text_def)
    have sub: "sublist ?ser ?uq"
      using sublist_appendI [of ?ser "prompt @ ''\<newline>\<newline>[SYSTEM NOTE: \<newline>Here is the real-time market data from the Indian Stock ''
                @ ''Market API:\<newline>''"
          "''\<newline>\<newline>Please use this data to provide an informative response to the ''
                @ ''user'' @ [CHR 0x27] @ ''s query.]''"]
      by simp
    have res: "case resolve name kwargs of
        Failure err \<Rightarrow> ?ser = dumps sv err \<and> log' = requests st
      | Request path params \<Rightarrow>
          log' = requests st @ [(''https://stock.indianapi.in'' @ path, params)]
          \<and> (case fetch sv (''https://stock.indianapi.in'' @ path) params of
                Inr body \<Rightarrow> ?ser = dumps sv body
              | Inl msg \<Rightarrow> ?ser = dumps sv (JObj [(''error'', JStr msg)]))"
      using c by (auto simp: call_api_by_name_cases split: resolution.splits sum.splits)
    show ?thesis
      using True g uq sub res r
      by (intro exI [of _ ?uq] exI [of _ ?ser]) (simp split: resolution.splits)
  qed
qed

theorem data_context_in_prompt_witness:
  "''Show me NSE most active stocks'' \<noteq> []
   \<and> orchestrator
     (scripted (Inr (Some ''{\"needs_api\": true, \"function\": \"get_nse_most_active\", \"params\": {}}''))
        (serving (JArr [JObj [(''ticker'', JStr ''TCS'')]])) ([Text ''TCS leads.''], None))
     ''Show me NSE most active stocks'' =
     Inr (JObj [(''needs_api'', JBool True), (''function'', JStr ''get_nse_most_active''),
                (''params'', JObj [])])
   \<and> generations (chat_turn
       (scripted (Inr (Some ''{\"needs_api\": true, \"function\": \"get_nse_most_active\", \"params\": {}}''))
          (serving (JArr [JObj [(''ticker'', JStr ''TCS'')]])) ([Text ''TCS leads.''], None))
       new_session ''Show me NSE most active stocks'') =
     [(system_message_for
         (initial_messages @ [\<lparr>role = User, content = ''Show me NSE most active stocks''\<rparr>]),
       ''Show me NSE most active stocks''
       @ ''\<newline>\<newline>[SYSTEM NOTE: \<newline>Here is the real-time market data from the Indian Stock ''
                @ ''Market API:\<newline>''
       @ ''[\<newline>  {\<newline>    \"ticker\": \"TCS\"\<newline>  }\<newline>]''
       @ ''\<newline>\<newline>Please use this data to provide an informative response to the ''
                @ ''user'' @ [CHR 0x27] @ ''s query.]'')]
   \<and> requests (chat_turn
       (scripted (Inr (Some ''{\"needs_api\": true, \"function\": \"get_nse_most_active\", \"params\": {}}''))
          (serving (JArr [JObj [(''ticker'', JStr ''TCS'')]])) ([Text ''TCS leads.''], None))
       new_session ''Show me NSE most active stocks'') =
     [(''https://stock.indianapi.in/NSE_most_active'', [])]"
proof -
  let ?sv = "scripted (Inr (Some ''{\"needs_api\": true, \"function\": \"get_nse_most_active\", \"params\": {}}''))
        (serving (JArr [JObj [(''ticker'', JStr ''TCS'')]])) ([Text ''TCS leads.''], None)"
  let ?d = "[(''needs_api'', JBool True), (''function'', JStr ''get_nse_most_active''),
                (''params'', JObj [])]"
  have p: "''Show me NSE most active stocks'' \<noteq> []" by simp
  have a: "orchestrator ?sv ''Show me NSE most active stocks'' = Inr (JObj ?d)"
    by code_simp
  have b: "py_truthy (dict_get ?d ''needs_api'' (JBool False))"
    by (simp add: dict_get_def)
  have c: "dict_get ?d ''function'' (JStr []) = JStr ''get_nse_most_active''"
    by (simp add: dict_get_def)
  have d: "dict_get ?d ''params'' (JObj []) = JObj []"
    by (simp add: dict_get_def)
  have e: "\<not> dict_has ([] :: dict) ''api_name''"
    by (simp add: dict_has_def)
  have r: "dict_has API_ENDPOINTS ''get_nse_most_active''"
    by (simp add: registered_names)
  have res: "resolve ''get_nse_most_active'' [] = Request ''/NSE_most_active'' []"
    by (simp add: resolve_def dict_has_def API_ENDPOINTS_def get_or_def)
  have f: "fetch ?sv (''https://stock.indianapi.in'' @ ''/NSE_most_active'') [] =
      Inr (JArr [JObj [(''ticker'', JStr ''TCS'')]])"
    by (simp add: scripted_def serving_def)
  have s: "dumps ?sv (JArr [JObj [(''ticker'', JStr ''TCS'')]]) =
      ''[\<newline>  {\<newline>    \"ticker\": \"TCS\"\<newline>  }\<newline>]''"
    by code_simp
  have m: "messages new_session = initial_messages" "generations new_session = []"
    "requests new_session = []"
    by (simp_all add: new_session_def)
  from data_context_in_prompt [OF p a b c d e, of new_session] obtain user_query serialized
    where g: "generations (chat_turn ?sv new_session ''Show me NSE most active stocks'') =
        generations new_session
          @ [(system_message_for (messages new_session
                @ [\<lparr>role = User, content = ''Show me NSE most active stocks''\<rparr>]), user_query)]"
      and u: "user_query = ''Show me NSE most active stocks'' @ ''\<newline>\<newline>[SYSTEM NOTE: \<newline>Here is the real-time market data from the Indian Stock ''
                @ ''Market API:\<newline>''
                @ serialized
                @ ''\<newline>\<newline>Please use this data to provide an informative response to the ''
                @ ''user'' @ [CHR 0x27] @ ''s query.]''"
      and q: "requests (chat_turn ?sv new_session ''Show me NSE most active stocks'') =
          requests new_session @ [(''https://stock.indianapi.in'' @ ''/NSE_most_active'', [])]"
      and z: "serialized = dumps ?sv (JArr [JObj [(''ticker'', JStr ''TCS'')]])"
    by (simp only: r res f not_True_eq_False if_False resolution.case sum.case) blast
  from g u q z show ?thesis
    unfolding s m using p a by simp
qed

text \<open>
  Claim C2 as stated fails. With a network on which every request raises, the gateway
  returns an error object and the user query still carries the annotation, around the
  serialized error; the same happens when the registry rejects the call for a missing
  parameter.
\<close>

theorem data_context_on_error_counterexample:
  "fst (call_api_by_name unreachable ''get_stock_details'' [(''stock_name'', JStr ''TCS'')] []) =
     JObj [(''error'', JStr ''connection refused'')]
   \<and> generations (chat_turn
       (scripted (Inr (Some ''{\"needs_api\": true, \"function\": \"get_stock_details\", \"params\": {\"stock_name\": \"TCS\"}}''))
          unreachable ([Text ''No data.''], None))
       new_session ''Price of TCS?'') =
     [(system_message_for (initial_messages @ [\<lparr>role = User, content = ''Price of TCS?''\<rparr>]),
       ''Price of TCS?\<newline>\<newline>[SYSTEM NOTE: ''
       @ api_context_text ''{\<newline>  \"error\": \"connection refused\"\<newline>}'' @ '']'')]
   \<and> fst (call_api_by_name unreachable ''get_stock_details'' [] []) =
     JObj [(''error'', JStr ''Missing required parameter: stock_name'')]
   \<and> generations (chat_turn
       (scripted (Inr (Some ''{\"needs_api\": true, \"function\": \"get_stock_details\"}''))
          unreachable ([Text ''No data.''], None))
       new_session ''Price of TCS?'') =
     [(system_message_for (initial_messages @ [\<lparr>role = User, content = ''Price of TCS?''\<rparr>]),
       ''Price of TCS?\<newline>\<newline>[SYSTEM NOTE: ''
       @ api_context_text ''{\<newline>  \"error\": \"Missing required parameter: stock_name\"\<newline>}''
       @ '']'')]"
  by code_simp

end
